theory Spec2Isabelle
  imports Main
begin

section \<open>The scanner component of src/components/Scanner.tsx\<close>

text \<open>
  The React component \<^verbatim>\<open>Scanner\<close> is embedded as state passing. Its \<^verbatim>\<open>useState\<close>
  cells, its \<^verbatim>\<open>useRef\<close> cell and the user of \<^verbatim>\<open>useAuth()\<close> are fields of the
  record \<open>state\<close>; so is what the component does to the world around it: the timers it
  has set, the calls it has issued to the decode engine and to the store, the lines it
  has written to the console, and the rows of the table \<^verbatim>\<open>scanners\<close>.
  What the world answers (the camera list, the outcome of starting and stopping the
  engine, the store's replies, the user's answer to \<^verbatim>\<open>confirm\<close>) is a record \<open>env\<close>
  that every handler takes as an argument. An \<^verbatim>\<open>async\<close> handler runs here in one piece,
  its awaits answered by \<open>env\<close>: no other handler runs in between and no time passes
  while it waits.
\<close>

subsection \<open>Strings\<close>

text \<open>
  A JavaScript string is modelled as a \<open>string\<close>; a \<open>char\<close> is a code unit below 256.
  \<^verbatim>\<open>String.prototype.trim\<close> removes white space and line terminators from both ends;
  below 256 these are the code units 9 to 13, 32 and 160.
\<close>

definition is_whitespace :: "char \<Rightarrow> bool" where
  "is_whitespace c = (of_char c \<in> {9, 10, 11, 12, 13, 32, 160 :: nat})"

definition trim :: "string \<Rightarrow> string" where
  "trim s = rev (dropWhile is_whitespace (rev (dropWhile is_whitespace s)))"

fun startsWith :: "string \<Rightarrow> string \<Rightarrow> bool" where
  "startsWith s [] = True"
| "startsWith [] (p # ps) = False"
| "startsWith (c # cs) (p # ps) = (c = p \<and> startsWith cs ps)"

text \<open>\<^verbatim>\<open>s.includes(sub)\<close>: \<open>sub\<close> occurs in \<open>s\<close> at some position.\<close>

fun includes_str :: "string \<Rightarrow> string \<Rightarrow> bool" where
  "includes_str [] sub = (sub = [])"
| "includes_str (c # cs) sub = (startsWith (c # cs) sub \<or> includes_str cs sub)"

subsection \<open>Data\<close>

text \<open>
  \<^verbatim>\<open>Product\<close> is declared in \<^verbatim>\<open>../types\<close>; its fields are those the component reads
  when it renders the product.
\<close>

record product =
  serial_number :: string
  product_name :: string
  product_code :: string
  packaging :: string
  production_order :: string
  production_date :: string
  production_time :: string
  location :: string

datatype scan_status = StIdle | StDetecting | StSuccess | StError

datatype scan_method = Camera | Manual | Excel

text \<open>
  A row of the table \<^verbatim>\<open>scanners\<close> of the migration: \<^verbatim>\<open>id\<close> is the primary key and
  the pair \<^verbatim>\<open>(user_id, scanner_name)\<close> is declared \<^verbatim>\<open>UNIQUE\<close>. Times are milliseconds.
\<close>

record scanner_row =
  scanner_id :: string
  user_id :: string
  scanner_name :: string
  scanner_type :: string
  device_info :: "string option"
  is_active :: bool
  created_at :: nat
  last_used_at :: "nat option"

text \<open>The object passed to \<^verbatim>\<open>upsert\<close> in \<^verbatim>\<open>registerCurrentScanner\<close>: it carries no \<^verbatim>\<open>id\<close>.\<close>

record scanner_payload =
  p_user_id :: string
  p_scanner_name :: string
  p_scanner_type :: string
  p_device_info :: string
  p_is_active :: bool
  p_last_used_at :: nat

record scan_event =
  ev_user_id :: string
  ev_serial_number :: string
  ev_scan_method :: scan_method

record camera_device =
  camera_id :: string
  camera_label :: string

record scan_config =
  fps :: nat
  qrbox_width :: nat
  qrbox_height :: nat
  aspectRatio :: nat

text \<open>The \<^verbatim>\<open>Html5Qrcode\<close> object held in \<^verbatim>\<open>html5QrCodeRef\<close>, as far as the component reads it.\<close>

record engine =
  isScanning :: bool

datatype engine_call = EngineStart string scan_config | EngineStop

datatype store_call =
    SelectProduct string
  | InsertHistory scan_event
  | SelectScanners string
  | UpsertScanner scanner_payload
  | DeleteScanner string "string option"

text \<open>
  A store call that goes wrong either answers \<^verbatim>\<open>{ data: null, error }\<close> or rejects its
  promise.
\<close>

datatype fault = ErrorReply string | Thrown string

text \<open>The callbacks the component hands to \<^verbatim>\<open>setTimeout\<close>.\<close>

datatype timer_action = ResetStatusIdle | SettleLookup string

record state =
  cameraActive :: bool
  manualSN :: string
  scannedProduct :: "product option"
  scanStatus :: scan_status
  error :: string
  scanners :: "scanner_row list"
  showScannerModal :: bool
  scannerSearchInput :: string
  loadingScanners :: bool
  html5QrCodeRef :: "engine option"
  user :: "string option"
  now :: nat
  timers :: "(nat \<times> timer_action) list"
  engine_calls :: "engine_call list"
  store_calls :: "store_call list"
  scanners_table :: "scanner_row list"
  console :: "string list"

record env =
  new_engine_throws :: "string option"
  getCameras_reply :: "string + camera_device list option"
  start_reply :: "string option"
  stop_reply :: "string option"
  findBySerial :: "string \<Rightarrow> fault + product option"
  insert_history_throws :: "string option"
  select_scanners_fault :: "fault option"
  upsert_fault :: "fault option"
  delete_fault :: "fault option"
  fresh_uuid :: string
  confirm_reply :: bool
  localeDateString :: string
  deviceInfoJson :: string

text \<open>The state of a freshly mounted component (the initial values of its cells).\<close>

definition initial :: "string option \<Rightarrow> scanner_row list \<Rightarrow> state" where
  "initial u tbl =
     \<lparr>cameraActive = False, manualSN = [], scannedProduct = None, scanStatus = StIdle,
      error = [], scanners = [], showScannerModal = False, scannerSearchInput = [],
      loadingScanners = False, html5QrCodeRef = None, user = u, now = 0, timers = [],
      engine_calls = [], store_calls = [], scanners_table = tbl, console = []\<rparr>"

subsection \<open>Timers\<close>

text \<open>
  \<^verbatim>\<open>setTimeout(f, delay)\<close> queues \<open>f\<close> for the time \<open>now + delay\<close>. Time is counted in
  milliseconds; the timers due at a millisecond run in the order they were set.
\<close>

definition setTimeout :: "timer_action \<Rightarrow> nat \<Rightarrow> state \<Rightarrow> state" where
  "setTimeout f delay s = s\<lparr>timers := timers s @ [(now s + delay, f)]\<rparr>"

subsection \<open>Product lookup and scan history\<close>

definition saveScanHistory :: "env \<Rightarrow> string \<Rightarrow> scan_method \<Rightarrow> state \<Rightarrow> state" where
  "saveScanHistory env serialNumber method s =
     (case user s of
        None \<Rightarrow> s
      | Some uid \<Rightarrow>
          let s1 = s\<lparr>store_calls := store_calls s @
                     [InsertHistory \<lparr>ev_user_id = uid, ev_serial_number = serialNumber,
                                     ev_scan_method = method\<rparr>]\<rparr>
          in (case insert_history_throws env of
                None \<Rightarrow> s1
              | Some err \<Rightarrow> s1\<lparr>console := console s1 @ [''Error saving scan history:'']\<rparr>))"

text \<open>
  \<open>findBySerial env\<close> is the store's answer to the exact-match query with
  \<^verbatim>\<open>maybeSingle()\<close>: the matching product, no product, or a fault. Both kinds of fault
  reach the \<^verbatim>\<open>catch\<close> block.
\<close>

definition searchProduct :: "env \<Rightarrow> string \<Rightarrow> state \<Rightarrow> state" where
  "searchProduct env serialNumber s =
     (let s1 = s\<lparr>store_calls := store_calls s @ [SelectProduct serialNumber]\<rparr>
      in case findBySerial env serialNumber of
           Inl searchError \<Rightarrow>
             s1\<lparr>scanStatus := StError, error := ''Error searching product'',
                console := console s1 @ [''Search error:'']\<rparr>
         | Inr (Some data) \<Rightarrow>
             setTimeout ResetStatusIdle 2000
               (saveScanHistory env serialNumber Camera
                  (s1\<lparr>scannedProduct := Some data, scanStatus := StSuccess\<rparr>))
         | Inr None \<Rightarrow>
             setTimeout ResetStatusIdle 2000
               (s1\<lparr>scanStatus := StError, error := ''Produk tidak ditemukan di database'',
                   scannedProduct := None\<rparr>))"

definition handleManualSearch :: "env \<Rightarrow> state \<Rightarrow> state" where
  "handleManualSearch env s =
     (if trim (manualSN s) \<noteq> []
      then (searchProduct env (trim (manualSN s)) s)\<lparr>manualSN := []\<rparr>
      else s)"

text \<open>The history events the component has sent to the store so far.\<close>

fun history_events :: "store_call list \<Rightarrow> scan_event list" where
  "history_events [] = []"
| "history_events (InsertHistory e # cs) = e # history_events cs"
| "history_events (c # cs) = history_events cs"

subsection \<open>The scanner registry\<close>

text \<open>
  The rows \<^verbatim>\<open>loadScanners\<close> selects: the user's active rows, most recently used first,
  rows never used last.
\<close>

definition active_scanners_of :: "string \<Rightarrow> scanner_row list \<Rightarrow> scanner_row list" where
  "active_scanners_of uid tbl =
     sort_key (\<lambda>r. case last_used_at r of Some t \<Rightarrow> - int t | None \<Rightarrow> 1)
       (filter (\<lambda>r. user_id r = uid \<and> is_active r) tbl)"

definition loadScanners :: "env \<Rightarrow> state \<Rightarrow> state" where
  "loadScanners env s =
     (case user s of
        None \<Rightarrow> s
      | Some uid \<Rightarrow>
          let s1 = s\<lparr>loadingScanners := True,
                     store_calls := store_calls s @ [SelectScanners uid]\<rparr>;
              s2 = (case select_scanners_fault env of
                      None \<Rightarrow> s1\<lparr>scanners := active_scanners_of uid (scanners_table s1)\<rparr>
                    | Some (ErrorReply e) \<Rightarrow> s1
                    | Some (Thrown e) \<Rightarrow>
                        s1\<lparr>console := console s1 @ [''Error loading scanners:'']\<rparr>)
          in s2\<lparr>loadingScanners := False\<rparr>)"

text \<open>
  The store's side of \<^verbatim>\<open>.upsert(payload)\<close> on the table of the migration. The call
  passes no \<^verbatim>\<open>onConflict\<close> option, so the store resolves conflicts on the primary key
  \<^verbatim>\<open>id\<close>. The payload has no \<^verbatim>\<open>id\<close>, so the new row takes its default, a generated
  uuid (\<open>new_id\<close>), and \<^verbatim>\<open>created_at\<close> takes the time \<open>t\<close>. A row with that id is
  updated; otherwise the row is inserted. Either way the constraint
  \<^verbatim>\<open>UNIQUE(user_id, scanner_name)\<close> is checked against the other rows, and its
  violation is the store's error.
\<close>

definition upsert_scanner ::
  "string \<Rightarrow> nat \<Rightarrow> scanner_payload \<Rightarrow> scanner_row list \<Rightarrow> string + scanner_row list" where
  "upsert_scanner new_id t p tbl =
     (if \<exists>r\<in>set tbl. scanner_id r \<noteq> new_id \<and> user_id r = p_user_id p
                        \<and> scanner_name r = p_scanner_name p
      then Inl ''duplicate key value violates unique constraint''
      else if \<exists>r\<in>set tbl. scanner_id r = new_id
      then Inr (map (\<lambda>r. if scanner_id r = new_id
                          then r\<lparr>user_id := p_user_id p, scanner_name := p_scanner_name p,
                                 scanner_type := p_scanner_type p,
                                 device_info := Some (p_device_info p),
                                 is_active := p_is_active p,
                                 last_used_at := Some (p_last_used_at p)\<rparr>
                          else r) tbl)
      else Inr (tbl @ [\<lparr>scanner_id = new_id, user_id = p_user_id p,
                        scanner_name = p_scanner_name p, scanner_type = p_scanner_type p,
                        device_info = Some (p_device_info p), is_active = p_is_active p,
                        created_at = t, last_used_at = Some (p_last_used_at p)\<rparr>]))"

definition registerCurrentScanner :: "env \<Rightarrow> state \<Rightarrow> state" where
  "registerCurrentScanner env s =
     (case user s of
        None \<Rightarrow> s
      | Some uid \<Rightarrow>
          let scannerName = ''Camera-'' @ localeDateString env;
              payload = \<lparr>p_user_id = uid, p_scanner_name = scannerName,
                         p_scanner_type = ''camera'', p_device_info = deviceInfoJson env,
                         p_is_active = True, p_last_used_at = now s\<rparr>;
              s1 = s\<lparr>store_calls := store_calls s @ [UpsertScanner payload]\<rparr>;
              failed = s1\<lparr>console := console s1 @ [''Error registering scanner:''],
                          error := ''Failed to register scanner''\<rparr>
          in (case upsert_fault env of
                Some f \<Rightarrow> failed
              | None \<Rightarrow>
                  (case upsert_scanner (fresh_uuid env) (now s) payload (scanners_table s1) of
                     Inl insertError \<Rightarrow> failed
                   | Inr tbl \<Rightarrow>
                       (loadScanners env (s1\<lparr>scanners_table := tbl\<rparr>))
                         \<lparr>showScannerModal := False\<rparr>)))"

text \<open>
  \<^verbatim>\<open>deleteScannerInfo\<close>: the store deletes the rows with this id that belong to the
  user; the local list is filtered by id alone.
\<close>

definition deleteScannerInfo :: "env \<Rightarrow> string \<Rightarrow> state \<Rightarrow> state" where
  "deleteScannerInfo env scannerId s =
     (if \<not> confirm_reply env then s
      else
        let s1 = s\<lparr>store_calls := store_calls s @ [DeleteScanner scannerId (user s)]\<rparr>
        in (case delete_fault env of
              Some deleteError \<Rightarrow>
                s1\<lparr>console := console s1 @ [''Error deleting scanner:''],
                   error := ''Failed to delete scanner''\<rparr>
            | None \<Rightarrow>
                s1\<lparr>scanners_table :=
                     filter (\<lambda>r. \<not> (scanner_id r = scannerId \<and> Some (user_id r) = user s))
                       (scanners_table s1),
                   scanners := filter (\<lambda>r. scanner_id r \<noteq> scannerId) (scanners s1),
                   error := []\<rparr>))"

subsection \<open>The camera\<close>

text \<open>The \<^verbatim>\<open>catch\<close> block of \<^verbatim>\<open>startCamera\<close>, on the message of what was thrown.\<close>

definition camera_error_message :: "string \<Rightarrow> string" where
  "camera_error_message errorMessage =
     (if includes_str errorMessage ''camera'' \<or> includes_str errorMessage ''permission''
         \<or> includes_str errorMessage ''Permission denied''
      then ''Camera permission denied. Please allow camera access in your browser settings and try again.''
      else if includes_str errorMessage ''No cameras''
      then ''No camera found on this device. Please check your device has a working camera.''
      else ''Failed to access camera. Please check your permissions and device settings.'')"

definition camera_catch :: "string \<Rightarrow> state \<Rightarrow> state" where
  "camera_catch errorMessage s =
     s\<lparr>error := camera_error_message errorMessage, cameraActive := False,
       console := console s @ [''Camera error:'']\<rparr>"

text \<open>
  The decode callback passed to \<^verbatim>\<open>start\<close>. In \<^verbatim>\<open>startCamera\<close> the constructor
  \<^verbatim>\<open>new Html5Qrcode\<close>, \<^verbatim>\<open>getCameras\<close> and \<^verbatim>\<open>start\<close> may each throw; what is thrown is
  its message. \<^verbatim>\<open>registerCurrentScanner\<close> catches its own errors.
\<close>

definition onDecode :: "string \<Rightarrow> state \<Rightarrow> state" where
  "onDecode decodedText s =
     setTimeout (SettleLookup decodedText) 300 (s\<lparr>scanStatus := StDetecting\<rparr>)"

definition startCamera :: "env \<Rightarrow> state \<Rightarrow> state" where
  "startCamera env s =
     (let s1 = s\<lparr>cameraActive := True, scanStatus := StIdle, error := []\<rparr>
      in case (if html5QrCodeRef s1 = None
               then (case new_engine_throws env of
                       None \<Rightarrow> Inr (s1\<lparr>html5QrCodeRef := Some \<lparr>isScanning = False\<rparr>\<rparr>)
                     | Some e \<Rightarrow> Inl e)
               else Inr s1) of
           Inl e \<Rightarrow> camera_catch e s1
         | Inr s2 \<Rightarrow>
             (case getCameras_reply env of
                Inl e \<Rightarrow> camera_catch e s2
              | Inr None \<Rightarrow> camera_catch ''No cameras found on this device'' s2
              | Inr (Some cameras) \<Rightarrow>
                  if length cameras = 0
                  then camera_catch ''No cameras found on this device'' s2
                  else
                    let cameraId = camera_id (cameras ! (length cameras - 1));
                        s3 = s2\<lparr>engine_calls := engine_calls s2 @
                                  [EngineStart cameraId
                                     \<lparr>fps = 10, qrbox_width = 300, qrbox_height = 300,
                                      aspectRatio = 1\<rparr>]\<rparr>
                    in (case start_reply env of
                          Some e \<Rightarrow> camera_catch e s3
                        | None \<Rightarrow>
                            registerCurrentScanner env
                              (s3\<lparr>html5QrCodeRef :=
                                    map_option (\<lambda>q. q\<lparr>isScanning := True\<rparr>)
                                      (html5QrCodeRef s3)\<rparr>))))"

text \<open>The test of \<^verbatim>\<open>stopCamera\<close>: the ref holds an engine and it is scanning.\<close>

definition capturing :: "state \<Rightarrow> bool" where
  "capturing s = (case html5QrCodeRef s of None \<Rightarrow> False | Some q \<Rightarrow> isScanning q)"

definition stopCamera :: "env \<Rightarrow> state \<Rightarrow> state" where
  "stopCamera env s =
     (let s1 = (if capturing s
                then (let s' = s\<lparr>engine_calls := engine_calls s @ [EngineStop]\<rparr>
                      in case stop_reply env of
                           None \<Rightarrow>
                             s'\<lparr>html5QrCodeRef :=
                                  map_option (\<lambda>q. q\<lparr>isScanning := False\<rparr>)
                                    (html5QrCodeRef s')\<rparr>
                         | Some err \<Rightarrow>
                             s'\<lparr>console := console s' @ [''Error stopping camera:'']\<rparr>)
                else s)
      in s1\<lparr>cameraActive := False, scanStatus := StIdle\<rparr>)"

subsection \<open>Running the timers\<close>

fun run_timer :: "env \<Rightarrow> timer_action \<Rightarrow> state \<Rightarrow> state" where
  "run_timer env ResetStatusIdle s = s\<lparr>scanStatus := StIdle\<rparr>"
| "run_timer env (SettleLookup decodedText) s =
     (if trim decodedText \<noteq> [] then searchProduct env (trim decodedText) s else s)"

definition fire_due :: "env \<Rightarrow> state \<Rightarrow> state" where
  "fire_due env s =
     fold (\<lambda>(t, f). run_timer env f) (filter (\<lambda>(t, f). t \<le> now s) (timers s))
       (s\<lparr>timers := filter (\<lambda>(t, f). \<not> t \<le> now s) (timers s)\<rparr>)"

text \<open>\<open>advance env d s\<close>: \<open>d\<close> milliseconds pass with no event but the timers.\<close>

primrec advance :: "env \<Rightarrow> nat \<Rightarrow> state \<Rightarrow> state" where
  "advance env 0 s = s"
| "advance env (Suc d) s = advance env d (fire_due env (s\<lparr>now := now s + 1\<rparr>))"

subsection \<open>Example values\<close>

definition widget :: product where
  "widget = \<lparr>serial_number = ''SN-001'', product_name = ''Widget'', product_code = ''W-1'',
     packaging = ''box'', production_order = ''PO-1'', production_date = ''2025-12-09'',
     production_time = ''12:00'', location = ''A1''\<rparr>"

text \<open>
  A world in which everything works: two cameras, a store that holds the product
  \<open>widget\<close> and answers every call, and a user who confirms.
\<close>

definition demo_env :: env where
  "demo_env =
     \<lparr>new_engine_throws = None,
      getCameras_reply = Inr (Some [\<lparr>camera_id = ''cam-front'', camera_label = ''Front''\<rparr>,
                                    \<lparr>camera_id = ''cam-back'', camera_label = ''Back''\<rparr>]),
      start_reply = None, stop_reply = None,
      findBySerial = (\<lambda>sn. if sn = ''SN-001'' then Inr (Some widget) else Inr None),
      insert_history_throws = None, select_scanners_fault = None, upsert_fault = None,
      delete_fault = None, fresh_uuid = ''id-2'', confirm_reply = True,
      localeDateString = ''12/9/2025'', deviceInfoJson = ''{}''\<rparr>"

definition demo_row :: scanner_row where
  "demo_row = \<lparr>scanner_id = ''abc'', user_id = ''u1'', scanner_name = ''Camera-12/9/2025'',
      scanner_type = ''camera'', device_info = Some ''{}'', is_active = True,
      created_at = 0, last_used_at = Some 0\<rparr>"

section \<open>Properties\<close>

subsection \<open>Substrings and trimming\<close>

lemma startsWith_iff: "startsWith s p \<longleftrightarrow> (\<exists>b. s = p @ b)"
  by (induction s p rule: startsWith.induct) auto

lemma includes_str_iff: "includes_str s sub \<longleftrightarrow> (\<exists>a b. s = a @ sub @ b)"
proof (induction s)
  case Nil
  then show ?case by auto
next
  case (Cons c cs)
  show ?case
  proof
    assume "includes_str (c # cs) sub"
    then consider "startsWith (c # cs) sub" | "includes_str cs sub" by auto
    then show "\<exists>a b. c # cs = a @ sub @ b"
    proof cases
      case 1
      then obtain b where "c # cs = sub @ b" by (auto simp: startsWith_iff)
      then have "c # cs = [] @ sub @ b" by simp
      then show ?thesis by blast
    next
      case 2
      then obtain a b where "cs = a @ sub @ b" using Cons.IH by auto
      then have "c # cs = (c # a) @ sub @ b" by simp
      then show ?thesis by blast
    qed
  next
    assume "\<exists>a b. c # cs = a @ sub @ b"
    then obtain a b where ab: "c # cs = a @ sub @ b" by blast
    show "includes_str (c # cs) sub"
    proof (cases a)
      case Nil
      with ab have "startsWith (c # cs) sub" by (auto simp: startsWith_iff)
      then show ?thesis by simp
    next
      case (Cons x a')
      with ab have "cs = a' @ sub @ b" by simp
      then have "includes_str cs sub" using Cons.IH by blast
      then show ?thesis by simp
    qed
  qed
qed

lemma trim_blank:
  assumes "list_all is_whitespace text"
  shows "trim text = []"
proof -
  have e: "dropWhile is_whitespace text = []"
    using assms by (simp add: list_all_iff)
  show ?thesis unfolding trim_def e by simp
qed

lemma trim_nonblank:
  assumes "\<not> list_all is_whitespace text"
  shows "trim text \<noteq> []"
proof -
  let ?ys = "dropWhile is_whitespace text"
  have ne: "?ys \<noteq> []"
    using assms by (simp add: list_all_iff)
  then have "\<not> is_whitespace (hd ?ys)" by (rule hd_dropWhile)
  moreover have "hd ?ys \<in> set (rev ?ys)" using ne by simp
  ultimately have "dropWhile is_whitespace (rev ?ys) \<noteq> []"
    by (auto simp del: set_rev)
  then show ?thesis unfolding trim_def by simp
qed

subsection \<open>Time passing\<close>

lemma advance_add: "advance env (a + b) s = advance env b (advance env a s)"
  by (induction a arbitrary: s) auto

text \<open>With no timer set, time passing changes the clock alone.\<close>

lemma advance_idle: "timers s = [] \<Longrightarrow> advance env d s = s\<lparr>now := now s + d\<rparr>"
  by (induction d arbitrary: s) (auto simp: fire_due_def)

text \<open>A single timer does nothing before it is due, and runs at the millisecond it is due.\<close>

lemma advance_wait:
  "timers s = [(T, f)] \<Longrightarrow> now s + d < T \<Longrightarrow> advance env d s = s\<lparr>now := now s + d\<rparr>"
  by (induction d arbitrary: s) (auto simp: fire_due_def)

lemma advance_fire:
  assumes "timers s = [(T, f)]" and "now s + Suc d = T"
  shows "advance env (Suc d) s = run_timer env f (s\<lparr>now := T, timers := []\<rparr>)"
proof -
  have "advance env (d + 1) s = advance env 1 (advance env d s)"
    by (rule advance_add)
  also have "advance env d s = s\<lparr>now := now s + d\<rparr>"
    using assms by (intro advance_wait) auto
  finally show ?thesis using assms by (simp add: fire_due_def)
qed

subsection \<open>Frame lemmas\<close>

lemma history_events_append:
  "history_events (xs @ ys) = history_events xs @ history_events ys"
  by (induction xs rule: history_events.induct) auto

lemma registerCurrentScanner_keeps_session:
  "cameraActive (registerCurrentScanner env s) = cameraActive s"
  "scanStatus (registerCurrentScanner env s) = scanStatus s"
  "engine_calls (registerCurrentScanner env s) = engine_calls s"
  "html5QrCodeRef (registerCurrentScanner env s) = html5QrCodeRef s"
  by (auto simp: registerCurrentScanner_def loadScanners_def Let_def
        split: option.splits sum.splits fault.splits)

lemma searchProduct_answered_timers:
  assumes "findBySerial env sn = Inr r" and "timers s = []"
  shows "timers (searchProduct env sn s) = [(now (searchProduct env sn s) + 2000, ResetStatusIdle)]"
  using assms
  by (auto simp: searchProduct_def saveScanHistory_def setTimeout_def Let_def
        split: option.splits)

lemma onDecode_timers:
  "timers s = [] \<Longrightarrow>
   timers (onDecode text s) = [(now (onDecode text s) + 300, SettleLookup text)]"
  by (simp add: onDecode_def setTimeout_def)

subsection \<open>Lookup\<close>

text \<open>
  Claim C1, as the code has it. When the store answers the exact-match query for a
  serial number with a product, \<^verbatim>\<open>searchProduct\<close> sets the status to success and
  displays that product. It sends a history event only when a user is signed in
  (\<^verbatim>\<open>saveScanHistory\<close> returns at once otherwise): then exactly one event is added,
  for that user and that serial number; with no user none is added. \<^verbatim>\<open>searchProduct\<close>
  takes no method tag. For a lookup that the decode callback's timer starts, the
  event's method is \<^verbatim>\<open>camera\<close>; for the lookup in general the theorem leaves the
  method of the event open.
\<close>

theorem searchProduct_found:
  assumes "findBySerial env sn = Inr (Some p)"
  shows "scanStatus (searchProduct env sn s) = StSuccess
       \<and> scannedProduct (searchProduct env sn s) = Some p
       \<and> (case user s of
            None \<Rightarrow> history_events (store_calls (searchProduct env sn s))
                     = history_events (store_calls s)
          | Some uid \<Rightarrow>
              (\<exists>m. history_events (store_calls (searchProduct env sn s))
                   = history_events (store_calls s)
                     @ [\<lparr>ev_user_id = uid, ev_serial_number = sn, ev_scan_method = m\<rparr>]))
       \<and> (user s = Some u \<and> trim decodedText = sn \<and> sn \<noteq> [] \<longrightarrow>
            history_events (store_calls (run_timer env (SettleLookup decodedText) s))
              = history_events (store_calls s)
                @ [\<lparr>ev_user_id = u, ev_serial_number = sn, ev_scan_method = Camera\<rparr>])"
  using assms
  by (auto simp: searchProduct_def saveScanHistory_def setTimeout_def Let_def
        history_events_append split: option.splits)

theorem searchProduct_found_witness:
  "findBySerial demo_env ''SN-001'' = Inr (Some widget)
   \<and> scanStatus (searchProduct demo_env ''SN-001'' (initial (Some ''u1'') [])) = StSuccess
   \<and> scannedProduct (searchProduct demo_env ''SN-001'' (initial (Some ''u1'') []))
       = Some widget
   \<and> length (history_events
        (store_calls (searchProduct demo_env ''SN-001'' (initial (Some ''u1'') [])))) = 1
   \<and> trim ''SN-001 '' = ''SN-001''
   \<and> history_events
        (store_calls (run_timer demo_env (SettleLookup ''SN-001 '') (initial (Some ''u1'') [])))
       = [\<lparr>ev_user_id = ''u1'', ev_serial_number = ''SN-001'', ev_scan_method = Camera\<rparr>]"
proof -
  have h: "findBySerial demo_env ''SN-001'' = Inr (Some widget)"
    by (simp add: demo_env_def)
  have u: "user (initial (Some ''u1'') []) = Some ''u1''"
    "store_calls (initial (Some ''u1'') []) = []"
    by (simp_all add: initial_def)
  have w: "trim ''SN-001 '' = ''SN-001''" by (simp add: trim_def is_whitespace_def)
  note T = searchProduct_found [OF h, of "initial (Some ''u1'') []" "''u1''" "''SN-001 ''"]
  have "\<exists>m. history_events
          (store_calls (searchProduct demo_env ''SN-001'' (initial (Some ''u1'') [])))
        = [\<lparr>ev_user_id = ''u1'', ev_serial_number = ''SN-001'', ev_scan_method = m\<rparr>]"
    using T u by simp
  then have l: "length (history_events
          (store_calls (searchProduct demo_env ''SN-001'' (initial (Some ''u1'') [])))) = 1"
    by auto
  have c: "history_events
        (store_calls (run_timer demo_env (SettleLookup ''SN-001 '') (initial (Some ''u1'') [])))
       = [\<lparr>ev_user_id = ''u1'', ev_serial_number = ''SN-001'', ev_scan_method = Camera\<rparr>]"
    using T u w by simp
  have "scanStatus (searchProduct demo_env ''SN-001'' (initial (Some ''u1'') [])) = StSuccess"
    "scannedProduct (searchProduct demo_env ''SN-001'' (initial (Some ''u1'') [])) = Some widget"
    using T by simp_all
  then show ?thesis using h w l c by simp
qed

text \<open>
  Claim C1 as stated fails with no user signed in: the serial number is in the store,
  the lookup succeeds, and no history event is recorded.
\<close>

theorem lookup_signed_out_counterexample:
  "findBySerial demo_env ''SN-001'' = Inr (Some widget)
   \<and> scanStatus (searchProduct demo_env ''SN-001'' (initial None [])) = StSuccess
   \<and> history_events (store_calls (searchProduct demo_env ''SN-001'' (initial None []))) = []"
  by (simp add: demo_env_def searchProduct_def saveScanHistory_def setTimeout_def initial_def)

text \<open>
  Scenario A on the code, with a user signed in: the manual search of \<^verbatim>\<open>SN-001\<close>
  records one history event, and its method is \<^verbatim>\<open>camera\<close>, the constant that
  \<^verbatim>\<open>searchProduct\<close> passes to \<^verbatim>\<open>saveScanHistory\<close> on both paths.
\<close>

lemma manual_search_logs_camera:
  "history_events (store_calls (handleManualSearch demo_env
      ((initial (Some ''u1'') [])\<lparr>manualSN := ''SN-001''\<rparr>)))
   = [\<lparr>ev_user_id = ''u1'', ev_serial_number = ''SN-001'', ev_scan_method = Camera\<rparr>]"
  by (simp add: handleManualSearch_def trim_def is_whitespace_def demo_env_def
        searchProduct_def saveScanHistory_def setTimeout_def initial_def)

subsection \<open>Camera start\<close>

text \<open>
  The branch of the \<^verbatim>\<open>catch\<close> block for \<^verbatim>\<open>No cameras\<close> is never taken: a message that
  contains \<^verbatim>\<open>No cameras\<close> contains \<^verbatim>\<open>camera\<close>, which the branch before it tests.
\<close>

lemma no_cameras_includes_camera:
  assumes "includes_str m ''No cameras''"
  shows "includes_str m ''camera''"
proof -
  from assms obtain a b where "m = a @ ''No cameras'' @ b"
    by (auto simp: includes_str_iff)
  then have "m = (a @ ''No '') @ ''camera'' @ (''s'' @ b)" by simp
  then show ?thesis unfolding includes_str_iff by blast
qed

lemma camera_error_message_never_no_camera:
  "camera_error_message m
     \<noteq> ''No camera found on this device. Please check your device has a working camera.''"
  using no_cameras_includes_camera [of m] by (auto simp: camera_error_message_def)

text \<open>
  Claim C2 on the code. When the engine can be built and \<^verbatim>\<open>getCameras\<close> answers with
  an empty list, \<^verbatim>\<open>startCamera\<close> throws \<^verbatim>\<open>No cameras found on this device\<close>, the
  \<^verbatim>\<open>catch\<close> block finds \<^verbatim>\<open>camera\<close> in that message, and the message shown is the one
  for a denied permission; it does not contain \<^verbatim>\<open>No camera found\<close>. The camera is
  left inactive.
\<close>

theorem startCamera_no_cameras:
  assumes "html5QrCodeRef s \<noteq> None \<or> new_engine_throws env = None"
    and "getCameras_reply env = Inr (Some [])"
  shows "error (startCamera env s)
           = ''Camera permission denied. Please allow camera access in your browser settings and try again.''
       \<and> \<not> includes_str (error (startCamera env s)) ''No camera found''
       \<and> error (startCamera env s) = camera_error_message ''Permission denied''
       \<and> cameraActive (startCamera env s) = False"
proof -
  have e: "error (startCamera env s)
             = ''Camera permission denied. Please allow camera access in your browser settings and try again.''"
    using assms
    by (auto simp: startCamera_def camera_catch_def camera_error_message_def Let_def
          split: option.splits)
  have a: "cameraActive (startCamera env s) = False"
    using assms
    by (auto simp: startCamera_def camera_catch_def Let_def split: option.splits)
  have n: "\<not> includes_str ''Camera permission denied. Please allow camera access in your browser settings and try again.'' ''No camera found''"
    by simp
  have p: "camera_error_message ''Permission denied''
             = ''Camera permission denied. Please allow camera access in your browser settings and try again.''"
    by (simp add: camera_error_message_def)
  show ?thesis using e a n p by simp
qed

theorem startCamera_no_cameras_witness:
  "getCameras_reply (demo_env\<lparr>getCameras_reply := Inr (Some [])\<rparr>) = Inr (Some [])
   \<and> error (startCamera (demo_env\<lparr>getCameras_reply := Inr (Some [])\<rparr>) (initial None []))
       = ''Camera permission denied. Please allow camera access in your browser settings and try again.''
   \<and> cameraActive (startCamera (demo_env\<lparr>getCameras_reply := Inr (Some [])\<rparr>) (initial None []))
       = False"
proof -
  let ?env = "demo_env\<lparr>getCameras_reply := Inr (Some [])\<rparr>"
  have h1: "html5QrCodeRef (initial None []) \<noteq> None \<or> new_engine_throws ?env = None"
    by (simp add: demo_env_def)
  have h2: "getCameras_reply ?env = Inr (Some [])" by simp
  show ?thesis
    using h2 startCamera_no_cameras [OF h1 h2] by simp
qed

text \<open>
  Claim C7. When the engine can be built and \<^verbatim>\<open>getCameras\<close> answers with a list that
  is not empty, \<^verbatim>\<open>startCamera\<close> asks the engine to start on the camera at index
  \<open>length - 1\<close>, the last of the list, at 10 frames per second with a detection box of
  300 by 300 and aspect ratio 1. When the engine starts, it is scanning and the camera
  is active.
\<close>

theorem startCamera_selects_last_camera:
  assumes "html5QrCodeRef s \<noteq> None \<or> new_engine_throws env = None"
    and "getCameras_reply env = Inr (Some cameras)" and "cameras \<noteq> []"
  shows "engine_calls (startCamera env s)
           = engine_calls s @
             [EngineStart (camera_id (cameras ! (length cameras - 1)))
                \<lparr>fps = 10, qrbox_width = 300, qrbox_height = 300, aspectRatio = 1\<rparr>]
       \<and> cameras ! (length cameras - 1) = last cameras
       \<and> (start_reply env = None \<longrightarrow>
            cameraActive (startCamera env s) \<and> capturing (startCamera env s))"
  using assms
  by (auto simp: startCamera_def camera_catch_def capturing_def Let_def
        registerCurrentScanner_keeps_session last_conv_nth split: option.splits)

theorem startCamera_selects_last_camera_witness:
  "getCameras_reply demo_env
     = Inr (Some [\<lparr>camera_id = ''cam-front'', camera_label = ''Front''\<rparr>,
                  \<lparr>camera_id = ''cam-back'', camera_label = ''Back''\<rparr>])
   \<and> engine_calls (startCamera demo_env (initial None []))
       = [EngineStart ''cam-back''
            \<lparr>fps = 10, qrbox_width = 300, qrbox_height = 300, aspectRatio = 1\<rparr>]
   \<and> cameraActive (startCamera demo_env (initial None []))"
proof -
  let ?cams = "[\<lparr>camera_id = ''cam-front'', camera_label = ''Front''\<rparr>,
                \<lparr>camera_id = ''cam-back'', camera_label = ''Back''\<rparr>]"
  have h1: "html5QrCodeRef (initial None []) \<noteq> None \<or> new_engine_throws demo_env = None"
    by (simp add: demo_env_def)
  have h2: "getCameras_reply demo_env = Inr (Some ?cams)" by (simp add: demo_env_def)
  have h3: "?cams \<noteq> []" by simp
  have h4: "start_reply demo_env = None" by (simp add: demo_env_def)
  show ?thesis
    using h2 h4 startCamera_selects_last_camera [OF h1 h2 h3]
    by (simp add: initial_def)
qed

subsection \<open>Camera stop\<close>

text \<open>
  Claim C8. \<^verbatim>\<open>stopCamera\<close> always returns, with the camera inactive and the status
  idle, and never touches the error message. When no capture is active it calls nothing
  and logs nothing. When the engine's \<^verbatim>\<open>stop\<close> fails, the failure is written to the
  console and nothing else differs. Stopping again after a stop that succeeded, or
  after a stop with no capture active, changes nothing; after any stop, a second stop
  leaves the camera inactive, the status idle and the error message as it was.
\<close>

theorem stopCamera_idempotent_total:
  "cameraActive (stopCamera env s) = False
   \<and> scanStatus (stopCamera env s) = StIdle
   \<and> error (stopCamera env s) = error s
   \<and> (\<not> capturing s \<longrightarrow> stopCamera env s = s\<lparr>cameraActive := False, scanStatus := StIdle\<rparr>)
   \<and> (capturing s \<and> stop_reply env \<noteq> None \<longrightarrow>
        stopCamera env s
          = s\<lparr>cameraActive := False, scanStatus := StIdle,
               engine_calls := engine_calls s @ [EngineStop],
               console := console s @ [''Error stopping camera:'']\<rparr>)
   \<and> (\<not> capturing s \<or> stop_reply env = None \<longrightarrow>
        stopCamera env' (stopCamera env s) = stopCamera env s)
   \<and> cameraActive (stopCamera env' (stopCamera env s)) = False
   \<and> scanStatus (stopCamera env' (stopCamera env s)) = StIdle
   \<and> error (stopCamera env' (stopCamera env s)) = error s"
  by (auto simp: stopCamera_def capturing_def Let_def split: option.splits)

theorem stopCamera_idempotent_total_witness:
  "\<not> capturing (initial None [])
   \<and> stopCamera demo_env (initial None []) = initial None []
   \<and> capturing ((initial None [])\<lparr>cameraActive := True,
                                      html5QrCodeRef := Some \<lparr>isScanning = True\<rparr>\<rparr>)
   \<and> stop_reply (demo_env\<lparr>stop_reply := Some ''Cannot stop''\<rparr>) \<noteq> None
   \<and> stopCamera (demo_env\<lparr>stop_reply := Some ''Cannot stop''\<rparr>)
        ((initial None [])\<lparr>cameraActive := True, html5QrCodeRef := Some \<lparr>isScanning = True\<rparr>\<rparr>)
       = (initial None [])\<lparr>html5QrCodeRef := Some \<lparr>isScanning = True\<rparr>,
                            engine_calls := [EngineStop],
                            console := [''Error stopping camera:'']\<rparr>"
proof -
  let ?env = "demo_env\<lparr>stop_reply := Some ''Cannot stop''\<rparr>"
  let ?s = "(initial None [])\<lparr>cameraActive := True,
                                html5QrCodeRef := Some \<lparr>isScanning = True\<rparr>\<rparr>"
  have h1: "\<not> capturing (initial None [])" by (simp add: capturing_def initial_def)
  have h2: "capturing ?s" by (simp add: capturing_def)
  have h3: "stop_reply ?env \<noteq> None" by simp
  show ?thesis
    using h1 h2 h3
      stopCamera_idempotent_total [of demo_env "initial None []" demo_env]
      stopCamera_idempotent_total [of ?env ?s demo_env]
    by (simp add: initial_def)
qed

subsection \<open>The decode callback\<close>

text \<open>
  Claim C5, as the code has it. Every decode callback, whatever its text and whatever
  the status before, sets the status to detecting at once: the clock has not moved and
  no lookup has been sent. With no other timer set, the status is detecting all through
  the 300 milliseconds of the settle delay, which holds back the lookup only.
\<close>

theorem onDecode_detecting_at_once:
  "scanStatus (onDecode decodedText s) = StDetecting
   \<and> now (onDecode decodedText s) = now s
   \<and> store_calls (onDecode decodedText s) = store_calls s
   \<and> (timers s = [] \<and> d < 300 \<longrightarrow>
        scanStatus (advance env d (onDecode decodedText s)) = StDetecting)"
proof -
  let ?s = "onDecode decodedText s"
  have "scanStatus (advance env d ?s) = StDetecting" if "timers s = []" "d < 300"
  proof -
    have "advance env d ?s = ?s\<lparr>now := now ?s + d\<rparr>"
      by (rule advance_wait [OF onDecode_timers [OF that(1)]]) (use that in simp)
    then show ?thesis by (simp add: onDecode_def setTimeout_def)
  qed
  then show ?thesis by (simp add: onDecode_def setTimeout_def)
qed

theorem onDecode_detecting_at_once_witness:
  "timers (initial None []) = [] \<and> (100 :: nat) < 300
   \<and> scanStatus (onDecode ''SN-001'' (initial None [])) = StDetecting
   \<and> scanStatus (advance demo_env 100 (onDecode ''SN-001'' (initial None []))) = StDetecting"
proof -
  have h: "timers (initial None []) = []" by (simp add: initial_def)
  show ?thesis
    using h onDecode_detecting_at_once [of "''SN-001''" "initial None []" 100 demo_env]
    by simp
qed

text \<open>
  Claim C5 as stated fails on a decode callback that carries two spaces: the session is
  idle, the text trims to the empty string, and the status is detecting at once; it is
  still detecting when the settle delay has passed.
\<close>

theorem onDecode_blank_counterexample:
  "scanStatus (initial None []) = StIdle \<and> trim ''  '' = []
   \<and> scanStatus (onDecode ''  '' (initial None [])) = StDetecting
   \<and> now (onDecode ''  '' (initial None [])) = now (initial None [])
   \<and> scanStatus (advance demo_env 300 (onDecode ''  '' (initial None []))) = StDetecting"
proof -
  let ?s = "onDecode ''  '' (initial None [])"
  have t: "timers ?s = [(300, SettleLookup ''  '')]" "now ?s = 0"
    by (simp_all add: onDecode_def setTimeout_def initial_def)
  have w: "trim ''  '' = []" by (simp add: trim_def is_whitespace_def)
  have "advance demo_env (Suc 299) ?s
          = run_timer demo_env (SettleLookup ''  '') (?s\<lparr>now := 300, timers := []\<rparr>)"
    by (rule advance_fire) (simp_all add: t)
  then have "scanStatus (advance demo_env 300 ?s) = StDetecting"
    using w by (simp add: onDecode_def setTimeout_def)
  then show ?thesis using w by (simp add: onDecode_def setTimeout_def initial_def)
qed

text \<open>
  Claim C6. A decode callback sends nothing to the store; it sets a timer for 300
  milliseconds later. That timer, whenever it runs, does nothing for a text of white
  space only. With no other timer set: no lookup is sent before 300 milliseconds have
  passed; for a text of white space only no lookup is sent however long one waits; for
  any other text the lookup of the trimmed text runs at 300 milliseconds.
\<close>

theorem onDecode_schedules_lookup:
  "store_calls (onDecode text s) = store_calls s
   \<and> timers (onDecode text s) = timers s @ [(now s + 300, SettleLookup text)]
   \<and> (list_all is_whitespace text \<longrightarrow> run_timer env (SettleLookup text) s' = s')
   \<and> (timers s = [] \<longrightarrow>
        (d < 300 \<longrightarrow> store_calls (advance env d (onDecode text s)) = store_calls s)
        \<and> (list_all is_whitespace text \<longrightarrow>
             store_calls (advance env d (onDecode text s)) = store_calls s)
        \<and> (\<not> list_all is_whitespace text \<longrightarrow>
             advance env 300 (onDecode text s)
               = searchProduct env (trim text)
                   (s\<lparr>scanStatus := StDetecting, now := now s + 300\<rparr>)))"
proof -
  let ?s = "onDecode text s"
  have a: "store_calls ?s = store_calls s" by (simp add: onDecode_def setTimeout_def)
  have b: "timers ?s = timers s @ [(now s + 300, SettleLookup text)]"
    by (simp add: onDecode_def setTimeout_def)
  have c: "run_timer env (SettleLookup text) s' = s'" if "list_all is_whitespace text"
    using that by (simp add: trim_blank)
  have rest: "(d < 300 \<longrightarrow> store_calls (advance env d ?s) = store_calls s)
        \<and> (list_all is_whitespace text \<longrightarrow> store_calls (advance env d ?s) = store_calls s)
        \<and> (\<not> list_all is_whitespace text \<longrightarrow>
             advance env 300 ?s
               = searchProduct env (trim text)
                   (s\<lparr>scanStatus := StDetecting, now := now s + 300\<rparr>))"
    if empty: "timers s = []"
  proof -
    have t: "timers ?s = [(now ?s + 300, SettleLookup text)]"
      using empty by (rule onDecode_timers)
    have wait: "advance env k ?s = ?s\<lparr>now := now ?s + k\<rparr>" if "k < 300" for k
      by (rule advance_wait [OF t]) (use that in simp)
    have fire: "advance env (Suc 299) ?s
                  = run_timer env (SettleLookup text) (?s\<lparr>now := now ?s + 300, timers := []\<rparr>)"
      by (rule advance_fire [OF t]) simp
    have early: "store_calls (advance env d ?s) = store_calls s" if "d < 300"
      using wait [OF that] by (simp add: onDecode_def setTimeout_def)
    have blank: "store_calls (advance env d ?s) = store_calls s"
      if ws: "list_all is_whitespace text"
    proof (cases "d < 300")
      case True
      then show ?thesis by (rule early)
    next
      case False
      then obtain k where d: "d = 300 + k" by (metis le_add_diff_inverse not_less)
      have "advance env 300 ?s = ?s\<lparr>now := now ?s + 300, timers := []\<rparr>"
        using fire ws by (simp add: trim_blank)
      then have "advance env d ?s = advance env k (?s\<lparr>now := now ?s + 300, timers := []\<rparr>)"
        unfolding d advance_add by simp
      also have "\<dots> = (?s\<lparr>now := now ?s + 300, timers := []\<rparr>)\<lparr>now := now ?s + 300 + k\<rparr>"
        by (simp add: advance_idle)
      finally show ?thesis by (simp add: onDecode_def setTimeout_def)
    qed
    have other: "advance env 300 ?s
                   = searchProduct env (trim text)
                       (s\<lparr>scanStatus := StDetecting, now := now s + 300\<rparr>)"
      if nb: "\<not> list_all is_whitespace text"
    proof -
      have "s\<lparr>scanStatus := StDetecting, now := now s + 300, timers := []\<rparr>
              = s\<lparr>scanStatus := StDetecting, now := now s + 300\<rparr>"
        using empty by simp
      then show ?thesis
        using fire nb by (simp add: trim_nonblank onDecode_def setTimeout_def)
    qed
    show ?thesis using early blank other by blast
  qed
  show ?thesis using a b c rest by blast
qed

theorem onDecode_schedules_lookup_witness:
  "timers (initial None []) = []
   \<and> list_all is_whitespace '' ''
   \<and> store_calls (advance demo_env 1000 (onDecode '' '' (initial None []))) = []
   \<and> \<not> list_all is_whitespace '' SN-001'' \<and> (100 :: nat) < 300
   \<and> store_calls (advance demo_env 100 (onDecode '' SN-001'' (initial None []))) = []
   \<and> store_calls (advance demo_env 300 (onDecode '' SN-001'' (initial None [])))
       = [SelectProduct ''SN-001'']"
proof -
  have h1: "timers (initial None []) = []" by (simp add: initial_def)
  have h2: "list_all is_whitespace '' ''" by (simp add: is_whitespace_def)
  have h3: "\<not> list_all is_whitespace '' SN-001''" by (simp add: is_whitespace_def)
  have h4: "trim '' SN-001'' = ''SN-001''" by (simp add: trim_def is_whitespace_def)
  have h5: "store_calls (initial None []) = []" by (simp add: initial_def)
  have h6: "store_calls (searchProduct demo_env ''SN-001''
              ((initial None [])\<lparr>scanStatus := StDetecting, now := now (initial None []) + 300\<rparr>))
            = [SelectProduct ''SN-001'']"
    by (simp add: searchProduct_def saveScanHistory_def setTimeout_def demo_env_def initial_def)
  show ?thesis
    using h1 h2 h3 h4 h5 h6
      onDecode_schedules_lookup [of "'' ''" "initial None []" demo_env "initial None []" 1000]
      onDecode_schedules_lookup [of "'' SN-001''" "initial None []" demo_env "initial None []" 100]
    by simp
qed

subsection \<open>The reset after a lookup\<close>

text \<open>
  When the store answers the query, with a product or with none, \<^verbatim>\<open>searchProduct\<close>
  sets the reset timer: with no other timer set, the status is success or error until
  2000 milliseconds have passed, and idle then.
\<close>

lemma searchProduct_answered_resets:
  assumes "findBySerial env sn = Inr r" and "timers s = []"
  shows "scanStatus (advance env 2000 (searchProduct env sn s)) = StIdle"
    and "d < 2000 \<Longrightarrow> scanStatus (advance env d (searchProduct env sn s))
           = (if r = None then StError else StSuccess)"
proof -
  let ?s = "searchProduct env sn s"
  note t = searchProduct_answered_timers [OF assms]
  have "advance env (Suc 1999) ?s
          = run_timer env ResetStatusIdle (?s\<lparr>now := now ?s + 2000, timers := []\<rparr>)"
    by (rule advance_fire [OF t]) simp
  then show "scanStatus (advance env 2000 ?s) = StIdle" by simp
  show "scanStatus (advance env d ?s) = (if r = None then StError else StSuccess)"
    if "d < 2000"
  proof -
    have "advance env d ?s = ?s\<lparr>now := now ?s + d\<rparr>"
      by (rule advance_wait [OF t]) (use that in simp)
    then show ?thesis
      using assms
      by (auto simp: searchProduct_def saveScanHistory_def setTimeout_def Let_def
            split: option.splits)
  qed
qed

text \<open>
  Claim C3 on the code. When the query fails (an error reply or a rejected promise),
  the \<^verbatim>\<open>catch\<close> block of \<^verbatim>\<open>searchProduct\<close> sets the status to error and sets no timer:
  with no other timer set, the status is error however long one waits.
\<close>

theorem searchProduct_fault_stays_error:
  assumes "findBySerial env sn = Inl f" and "timers s = []"
  shows "scanStatus (searchProduct env sn s) = StError
       \<and> timers (searchProduct env sn s) = []
       \<and> scanStatus (advance env d (searchProduct env sn s)) = StError"
  using assms
  by (simp add: searchProduct_def Let_def advance_idle)

theorem searchProduct_fault_stays_error_witness:
  "findBySerial (demo_env\<lparr>findBySerial := (\<lambda>sn. Inl (Thrown ''Failed to fetch''))\<rparr>) ''SN-001''
     = Inl (Thrown ''Failed to fetch'')
   \<and> timers (initial None []) = []
   \<and> scanStatus (advance (demo_env\<lparr>findBySerial := (\<lambda>sn. Inl (Thrown ''Failed to fetch''))\<rparr>) 2000
        (searchProduct (demo_env\<lparr>findBySerial := (\<lambda>sn. Inl (Thrown ''Failed to fetch''))\<rparr>)
           ''SN-001'' (initial None []))) = StError"
proof -
  let ?env = "demo_env\<lparr>findBySerial := (\<lambda>sn. Inl (Thrown ''Failed to fetch''))\<rparr>"
  have h1: "findBySerial ?env ''SN-001'' = Inl (Thrown ''Failed to fetch'')" by simp
  have h2: "timers (initial None []) = []" by (simp add: initial_def)
  show ?thesis
    using h1 h2 searchProduct_fault_stays_error [OF h1 h2, of 2000] by simp
qed

text \<open>
  Claim C10. The reset callback sets the status to idle and changes nothing else. After
  a lookup that found a product, with no other timer set, the state 2000 milliseconds
  later is the state the lookup left, with the status idle, the clock advanced and the
  timer gone: the product found is still displayed and the error message is the one
  from before the lookup.
\<close>

theorem reset_timer_keeps_product:
  assumes "findBySerial env sn = Inr (Some p)" and "timers s = []"
  shows "run_timer env ResetStatusIdle s' = s'\<lparr>scanStatus := StIdle\<rparr>
       \<and> advance env 2000 (searchProduct env sn s)
           = (searchProduct env sn s)\<lparr>scanStatus := StIdle, now := now s + 2000, timers := []\<rparr>
       \<and> scanStatus (advance env 2000 (searchProduct env sn s)) = StIdle
       \<and> scannedProduct (advance env 2000 (searchProduct env sn s)) = Some p
       \<and> error (advance env 2000 (searchProduct env sn s)) = error s"
proof -
  let ?s = "searchProduct env sn s"
  note t = searchProduct_answered_timers [OF assms]
  have f: "scannedProduct ?s = Some p" "error ?s = error s" "now ?s = now s"
    using assms(1)
    by (auto simp: searchProduct_def saveScanHistory_def setTimeout_def Let_def
          split: option.splits)
  have "advance env (Suc 1999) ?s
          = run_timer env ResetStatusIdle (?s\<lparr>now := now ?s + 2000, timers := []\<rparr>)"
    by (rule advance_fire [OF t]) simp
  then have "advance env 2000 ?s
               = ?s\<lparr>scanStatus := StIdle, now := now s + 2000, timers := []\<rparr>"
    using f(3) by simp
  then show ?thesis using f by simp
qed

theorem reset_timer_keeps_product_witness:
  "findBySerial demo_env ''SN-001'' = Inr (Some widget)
   \<and> timers (initial None []) = []
   \<and> scanStatus (advance demo_env 2000 (searchProduct demo_env ''SN-001'' (initial None [])))
       = StIdle
   \<and> scannedProduct (advance demo_env 2000 (searchProduct demo_env ''SN-001'' (initial None [])))
       = Some widget
   \<and> error (advance demo_env 2000 (searchProduct demo_env ''SN-001'' (initial None []))) = []"
proof -
  have h1: "findBySerial demo_env ''SN-001'' = Inr (Some widget)"
    by (simp add: demo_env_def)
  have h2: "timers (initial None []) = []" by (simp add: initial_def)
  have h3: "error (initial None []) = []" by (simp add: initial_def)
  let ?s = "advance demo_env 2000 (searchProduct demo_env ''SN-001'' (initial None []))"
  have r: "scanStatus ?s = StIdle \<and> scannedProduct ?s = Some widget
           \<and> error ?s = error (initial None [])"
    using reset_timer_keeps_product [OF h1 h2] by blast
  show ?thesis
    using h1 h2 h3 r by simp
qed

subsection \<open>The scanner registry\<close>

text \<open>
  Claim C4 on the code. When the user already has a row with the name
  \<^verbatim>\<open>registerCurrentScanner\<close> builds (under another id than the one the store
  generates), the upsert violates \<^verbatim>\<open>UNIQUE(user_id, scanner_name)\<close>:
  \<^verbatim>\<open>registerCurrentScanner\<close> sets the message \<^verbatim>\<open>Failed to register scanner\<close> and the
  table is as it was, so the row is not replaced and its last-used time is not updated.
\<close>

theorem registerCurrentScanner_same_name_fails:
  assumes "user s = Some uid" and "upsert_fault env = None"
    and "r \<in> set (scanners_table s)" and "user_id r = uid"
    and "scanner_name r = ''Camera-'' @ localeDateString env"
    and "scanner_id r \<noteq> fresh_uuid env"
  shows "error (registerCurrentScanner env s) = ''Failed to register scanner''
       \<and> scanners_table (registerCurrentScanner env s) = scanners_table s"
proof -
  have "\<exists>x\<in>set (scanners_table s). scanner_id x \<noteq> fresh_uuid env \<and> user_id x = uid
          \<and> scanner_name x = ''Camera-'' @ localeDateString env"
    using assms by blast
  then show ?thesis
    using assms(1,2) by (simp add: registerCurrentScanner_def upsert_scanner_def Let_def)
qed

theorem registerCurrentScanner_same_name_fails_witness:
  "user ((initial (Some ''u1'') [demo_row])\<lparr>now := 5000\<rparr>) = Some ''u1''
   \<and> demo_row \<in> set (scanners_table ((initial (Some ''u1'') [demo_row])\<lparr>now := 5000\<rparr>))
   \<and> scanner_name demo_row = ''Camera-'' @ localeDateString demo_env
   \<and> error (registerCurrentScanner demo_env ((initial (Some ''u1'') [demo_row])\<lparr>now := 5000\<rparr>))
       = ''Failed to register scanner''
   \<and> scanners_table
        (registerCurrentScanner demo_env ((initial (Some ''u1'') [demo_row])\<lparr>now := 5000\<rparr>))
       = [demo_row]
   \<and> last_used_at demo_row = Some 0"
proof -
  let ?s = "(initial (Some ''u1'') [demo_row])\<lparr>now := 5000\<rparr>"
  have h1: "user ?s = Some ''u1''" by (simp add: initial_def)
  have h2: "upsert_fault demo_env = None" by (simp add: demo_env_def)
  have h3: "demo_row \<in> set (scanners_table ?s)" by (simp add: initial_def)
  have h4: "user_id demo_row = ''u1''" by (simp add: demo_row_def)
  have h5: "scanner_name demo_row = ''Camera-'' @ localeDateString demo_env"
    by (simp add: demo_row_def demo_env_def)
  have h6: "scanner_id demo_row \<noteq> fresh_uuid demo_env"
    by (simp add: demo_row_def demo_env_def)
  have h7: "last_used_at demo_row = Some 0" by (simp add: demo_row_def)
  have h8: "scanners_table ?s = [demo_row]" by (simp add: initial_def)
  show ?thesis
    using h1 h3 h5 h7 h8 registerCurrentScanner_same_name_fails [OF h1 h2 h3 h4 h5 h6]
    by simp
qed

text \<open>
  The same on two starts of the camera on one day: the first registers the profile, the
  second fails to register it.
\<close>

lemma second_start_same_day_fails:
  "error (startCamera demo_env (initial (Some ''u1'') [])) = []
   \<and> error (startCamera (demo_env\<lparr>fresh_uuid := ''id-3''\<rparr>)
              (startCamera demo_env (initial (Some ''u1'') [])))
       = ''Failed to register scanner''"
  by (simp add: startCamera_def registerCurrentScanner_def upsert_scanner_def loadScanners_def
        active_scanners_of_def demo_env_def initial_def Let_def)

text \<open>
  Claim C9. \<^verbatim>\<open>deleteScannerInfo\<close> asks for confirmation first. Declined, it returns the
  state as it was: no store call, the table and the local list unchanged. Confirmed,
  with the store's delete succeeding, the one store call it adds is that delete (no
  select), the local list is the old list without the rows of the deleted id, and the
  table has lost the rows of that id that belong to the user.
\<close>

theorem deleteScannerInfo_confirmation:
  "(\<not> confirm_reply env \<longrightarrow> deleteScannerInfo env scannerId s = s)
   \<and> (confirm_reply env \<and> delete_fault env = None \<longrightarrow>
        scanners (deleteScannerInfo env scannerId s)
          = filter (\<lambda>r. scanner_id r \<noteq> scannerId) (scanners s)
        \<and> store_calls (deleteScannerInfo env scannerId s)
            = store_calls s @ [DeleteScanner scannerId (user s)]
        \<and> scanners_table (deleteScannerInfo env scannerId s)
            = filter (\<lambda>r. \<not> (scanner_id r = scannerId \<and> Some (user_id r) = user s))
                (scanners_table s))"
  by (simp add: deleteScannerInfo_def Let_def)

theorem deleteScannerInfo_confirmation_witness:
  "\<not> confirm_reply (demo_env\<lparr>confirm_reply := False\<rparr>)
   \<and> deleteScannerInfo (demo_env\<lparr>confirm_reply := False\<rparr>) ''abc''
        ((initial (Some ''u1'') [demo_row])\<lparr>scanners := [demo_row]\<rparr>)
       = (initial (Some ''u1'') [demo_row])\<lparr>scanners := [demo_row]\<rparr>
   \<and> confirm_reply demo_env \<and> delete_fault demo_env = None
   \<and> scanners (deleteScannerInfo demo_env ''abc''
        ((initial (Some ''u1'') [demo_row])\<lparr>scanners := [demo_row]\<rparr>)) = []
   \<and> store_calls (deleteScannerInfo demo_env ''abc''
        ((initial (Some ''u1'') [demo_row])\<lparr>scanners := [demo_row]\<rparr>))
       = [DeleteScanner ''abc'' (Some ''u1'')]"
proof -
  let ?s = "(initial (Some ''u1'') [demo_row])\<lparr>scanners := [demo_row]\<rparr>"
  have h1: "\<not> confirm_reply (demo_env\<lparr>confirm_reply := False\<rparr>)" by simp
  have h2: "confirm_reply demo_env \<and> delete_fault demo_env = None"
    by (simp add: demo_env_def)
  have h3: "scanner_id demo_row = ''abc''" by (simp add: demo_row_def)
  have h4: "scanners ?s = [demo_row]" "store_calls ?s = []" "user ?s = Some ''u1''"
    by (simp_all add: initial_def)
  show ?thesis
    using h1 h2 h3 h4
      deleteScannerInfo_confirmation [of "demo_env\<lparr>confirm_reply := False\<rparr>" "''abc''" ?s]
      deleteScannerInfo_confirmation [of demo_env "''abc''" ?s]
    by simp
qed

end
